theory Spec2Isabelle
  imports Main
begin

section \<open>Data model of package store\<close>

text \<open>
  The sentinel errors of store.go, the no-rows signal of database/sql that
  \<open>QueryRowContext(...).Scan\<close> hands back, and any other error of the storage engine.
\<close>

datatype error =
    ErrNoLabelsProvided
  | ErrNoIDsProvided
  | ErrNoRows
  | StorageError string

text \<open>A value passed as \<open>any\<close> to the database handle: the Store passes strings and ints.\<close>

datatype any = AnyString string | AnyInt int

text \<open>
  \<open>secretLabelRow\<close> (fields \<open>id\<close>, \<open>name\<close>, \<open>label\<close>; prefixed here, \<open>id\<close> being a
  constant of HOL) and \<open>LabeledSecret\<close>. Go's \<open>int\<close> is an \<open>int\<close>: ids are only compared.
\<close>

record secretLabelRow =
  row_id :: int
  row_name :: string
  row_label :: string

record LabeledSecret =
  Name :: string
  Labels :: "string list"

text \<open>
  \<open>*sql.Rows\<close> as the Store sees it: for each row that \<open>Next\<close> delivers, the outcome of
  \<open>Scan(&id, &name, &label)\<close> (an error or the decoded row), and the value of \<open>Err()\<close>
  once \<open>Next\<close> has returned false.
\<close>

record Rows =
  stream :: "(error + secretLabelRow) list"
  rows_err :: "error option"

text \<open>
  \<open>sql.Result\<close>: only the affected-row count is kept; no operation modelled here reads
  the result of \<open>ExecContext\<close>.
\<close>

record Result =
  RowsAffected :: int

text \<open>
  The interface \<open>DBTX\<close>. A handle owns storage of type \<open>'s\<close>; every method takes the
  storage and returns it, changed or not, with its answer. \<open>QueryRowContext\<close> answers with
  the outcome of \<open>Scan\<close> into one string destination. \<open>PrepareContext\<close> is declared by the
  interface and called by no method of Store.
\<close>

record 's DBTX =
  ExecContext :: "string \<Rightarrow> any list \<Rightarrow> 's \<Rightarrow> (error + Result) \<times> 's"
  QueryContext :: "string \<Rightarrow> any list \<Rightarrow> 's \<Rightarrow> (error + Rows) \<times> 's"
  QueryRowContext :: "string \<Rightarrow> any list \<Rightarrow> 's \<Rightarrow> (error + string) \<times> 's"

record 's Store =
  db :: "'s DBTX"

text \<open>
  A Go result \<open>(map[int]LabeledSecret, error)\<close>: the first component is \<open>None\<close> for the
  nil map, the second is \<open>None\<close> for the nil error.
\<close>

type_synonym secrets_result = "(int \<rightharpoonup> LabeledSecret) option \<times> error option"

abbreviation TAB :: char where "TAB \<equiv> CHR 0x09"
abbreviation NL :: char where "NL \<equiv> CHR 0x0A"

section \<open>Predicate builder\<close>

text \<open>\<open>strings.Join\<close> of the Go standard library.\<close>

fun Join :: "string list \<Rightarrow> string \<Rightarrow> string" where
  "Join [] sep = []"
| "Join [x] sep = x"
| "Join (x # y # ys) sep = x @ sep @ Join (y # ys) sep"

text \<open>
  The loop \<open>for i := range xs { xs[i] = v }\<close> over a slice made by \<open>make([]string, n)\<close>,
  used by \<open>whereGlobOrClause\<close> and by \<open>SecretsByIDs\<close>.
\<close>

definition fill :: "nat \<Rightarrow> string \<Rightarrow> string list" where
  "fill n v = fold (\<lambda>i xs. xs[i := v]) [0..<n] (replicate n [])"

definition whereGlobOrClause :: "string \<Rightarrow> string list \<Rightarrow> string" where
  "whereGlobOrClause col patterns =
     (if length patterns = 0 then []
      else (let clauses = fill (length patterns) (col @ '' GLOB ?'')
            in ''WHERE '' @ Join clauses '' OR ''))"

section \<open>Row aggregator\<close>

text \<open>One iteration of the loop of \<open>reduce\<close>, and the loop from the empty map.\<close>

definition reduce_step :: "(int \<rightharpoonup> LabeledSecret) \<Rightarrow> secretLabelRow \<Rightarrow> (int \<rightharpoonup> LabeledSecret)" where
  "reduce_step m s =
     (case m (row_id s) of
        None \<Rightarrow> m(row_id s \<mapsto> \<lparr>Name = row_name s, Labels = [row_label s]\<rparr>)
      | Some v \<Rightarrow> m(row_id s \<mapsto> v\<lparr>Labels := Labels v @ [row_label s]\<rparr>))"

fun reduce_loop :: "(int \<rightharpoonup> LabeledSecret) \<Rightarrow> secretLabelRow list \<Rightarrow> (int \<rightharpoonup> LabeledSecret)" where
  "reduce_loop m [] = m"
| "reduce_loop m (s # secrets) = reduce_loop (reduce_step m s) secrets"

definition reduce :: "secretLabelRow list \<Rightarrow> (int \<rightharpoonup> LabeledSecret)" where
  "reduce secrets = reduce_loop Map.empty secrets"

section \<open>Store facade\<close>

text \<open>
  Modelled from the spec: \<open>cmdutil.ToAnySlice\<close> (package pkg/util) is not among the source
  files; the spec has the pattern list become the parameter sequence, in the same order.
\<close>

definition ToAnySlice_string :: "string list \<Rightarrow> any list" where
  "ToAnySlice_string xs = map AnyString xs"

definition ToAnySlice_int :: "int list \<Rightarrow> any list" where
  "ToAnySlice_int xs = map AnyInt xs"

text \<open>
  The loop \<open>for rows.Next() { Scan; append }\<close> of \<open>secretsJoinLabels\<close>: it stops at the
  first row whose Scan fails.
\<close>

fun scan_loop :: "secretLabelRow list \<Rightarrow> (error + secretLabelRow) list \<Rightarrow> error + secretLabelRow list" where
  "scan_loop secrets [] = Inr secrets"
| "scan_loop secrets (Inl err # rest) = Inl err"
| "scan_loop secrets (Inr secret # rest) = scan_loop (secrets @ [secret]) rest"

definition secretsJoinLabels :: "'s Store \<Rightarrow> string \<Rightarrow> any list \<Rightarrow> 's \<Rightarrow> secrets_result \<times> 's" where
  "secretsJoinLabels s query args st =
     (case QueryContext (db s) query args st of
        (Inl err, st') \<Rightarrow> ((None, Some err), st')
      | (Inr rows, st') \<Rightarrow>
          (case scan_loop [] (stream rows) of
             Inl err \<Rightarrow> ((None, Some err), st')
           | Inr secrets \<Rightarrow>
               (case rows_err rows of
                  Some err \<Rightarrow> ((None, Some err), st')
                | None \<Rightarrow> ((Some (reduce secrets), None), st'))))"

text \<open>The raw string literal that opens the query of \<open>SecretsByColumn\<close> and of \<open>SecretsByLabelsAndName\<close>.\<close>

definition selectJoin :: string where
  "selectJoin =
     [NL, TAB] @ ''SELECT'' @
     [NL, TAB, TAB] @ ''s.id,'' @
     [NL, TAB, TAB] @ ''s.name AS secret_name,'' @
     [NL, TAB, TAB] @ ''l.name AS label'' @
     [NL, TAB] @ ''FROM'' @
     [NL, TAB, TAB] @ ''secrets s'' @
     [NL, TAB, TAB] @ ''JOIN labels l ON s.id = l.secret_id'' @
     [NL, TAB]"

text \<open>The raw string literal that opens the query of \<open>SecretsByIDs\<close>.\<close>

definition selectJoinIDs :: string where
  "selectJoinIDs =
     [NL, TAB] @ ''SELECT'' @
     [NL, TAB, TAB] @ ''s.id,'' @
     [NL, TAB, TAB] @ ''s.name,'' @
     [NL, TAB, TAB] @ ''l.name AS label'' @
     [NL, TAB] @ ''FROM'' @
     [NL, TAB, TAB] @ ''secrets s'' @
     [NL, TAB, TAB] @ ''JOIN labels l ON s.id = l.secret_id'' @
     [NL, TAB] @ ''WHERE'' @
     [NL, TAB, TAB] @ ''s.id IN (''"

text \<open>The local variable \<open>query\<close> of each search operation.\<close>

definition SecretsByColumn_query :: "string \<Rightarrow> string list \<Rightarrow> string" where
  "SecretsByColumn_query col patterns = selectJoin @ whereGlobOrClause col patterns"

definition SecretsByIDs_query :: "int list \<Rightarrow> string" where
  "SecretsByIDs_query ids =
     (let placeholders = fill (length ids) ''?''
      in selectJoinIDs @ Join placeholders '','' @ '')'')"

definition SecretsByLabelsAndName_query :: "string list \<Rightarrow> string" where
  "SecretsByLabelsAndName_query labels =
     selectJoin @ whereGlobOrClause ''label'' labels @ ''AND secret_name GLOB ?''"

definition SecretsByColumn :: "'s Store \<Rightarrow> string \<Rightarrow> string list \<Rightarrow> 's \<Rightarrow> secrets_result \<times> 's" where
  "SecretsByColumn s col patterns st =
     secretsJoinLabels s (SecretsByColumn_query col patterns) (ToAnySlice_string patterns) st"

definition SecretsByIDs :: "'s Store \<Rightarrow> int list \<Rightarrow> 's \<Rightarrow> secrets_result \<times> 's" where
  "SecretsByIDs s ids st =
     (if length ids = 0 then ((None, Some ErrNoIDsProvided), st)
      else secretsJoinLabels s (SecretsByIDs_query ids) (ToAnySlice_int ids) st)"

definition SecretsByLabelsAndName :: "'s Store \<Rightarrow> string \<Rightarrow> string list \<Rightarrow> 's \<Rightarrow> secrets_result \<times> 's" where
  "SecretsByLabelsAndName s name labels st =
     (if length labels = 0 then ((None, Some ErrNoLabelsProvided), st)
      else (let args = ToAnySlice_string labels @ [AnyString name]
            in secretsJoinLabels s (SecretsByLabelsAndName_query labels) args st))"

text \<open>The constants \<open>insertMasterKey\<close> and \<open>selectMasterKey\<close>.\<close>

definition insertMasterKey :: string where
  "insertMasterKey =
     [NL, TAB] @ ''INSERT INTO'' @
     [NL, TAB, TAB] @ ''master_key (id, key)'' @
     [NL, TAB] @ ''VALUES'' @
     [NL, TAB, TAB] @ ''(0, $1) ON CONFLICT (id) DO NOTHING'' @
     [NL]"




text \<open>
  Stores live on a heap of Go objects, a list addressed by index; \<open>&Store{...}\<close> allocates
  the next address. \<open>New\<close> and \<open>WithTx\<close> return the address of the Store they allocate;
  \<open>WithTx\<close> has an unnamed receiver, which it never reads.
\<close>

type_synonym 's heap = "'s Store list"

definition New :: "'s heap \<Rightarrow> 's DBTX \<Rightarrow> nat \<times> 's heap" where
  "New h d = (length h, h @ [\<lparr>db = d\<rparr>])"

definition WithTx :: "'s heap \<Rightarrow> nat \<Rightarrow> 's DBTX \<Rightarrow> nat \<times> 's heap" where
  "WithTx h s tx = (length h, h @ [\<lparr>db = tx\<rparr>])"

text \<open>
  A handle that records every call made to it, in order, beside the storage of the handle
  it wraps.
\<close>

datatype call =
    Exec (call_text: string) (call_args: "any list")
  | Query (call_text: string) (call_args: "any list")
  | QueryRow (call_text: string) (call_args: "any list")

definition recording :: "'s DBTX \<Rightarrow> ('s \<times> call list) DBTX" where
  "recording d =
     \<lparr>ExecContext = (\<lambda>q args (st, log).
        (case ExecContext d q args st of (r, st') \<Rightarrow> (r, (st', log @ [Exec q args])))),
      QueryContext = (\<lambda>q args (st, log).
        (case QueryContext d q args st of (r, st') \<Rightarrow> (r, (st', log @ [Query q args])))),
      QueryRowContext = (\<lambda>q args (st, log).
        (case QueryRowContext d q args st of (r, st') \<Rightarrow> (r, (st', log @ [QueryRow q args]))))\<rparr>"

section \<open>The storage engine\<close>

text \<open>
  Modelled from the spec: the schema is not among the source files. The spec gives
  \<open>master_key(id, key)\<close> with \<open>id\<close> a fixed singleton (unique, as the conflict target of
  \<open>insertMasterKey\<close> needs), \<open>secrets(id, name, secret)\<close> and
  \<open>labels(id, name, secret_id)\<close>. Each table is the list of its rows.
\<close>

record DB =
  master_key :: "(int \<times> string) list"
  secrets :: "(int \<times> string \<times> string) list"
  labels :: "(int \<times> string \<times> int) list"

text \<open>
  SQL text is cut into tokens at blanks, tabs and newlines; a \<open>?\<close> is a token of its own
  wherever it stands, so \<open>?AND\<close> is the two tokens \<open>?\<close> and \<open>AND\<close>.
\<close>

definition is_space :: "char \<Rightarrow> bool" where
  "is_space c = (c = CHR '' '' \<or> c = TAB \<or> c = NL)"

definition flush :: "string \<Rightarrow> string list" where
  "flush cur = (if cur = [] then [] else [cur])"

fun tokens :: "string \<Rightarrow> string \<Rightarrow> string list" where
  "tokens cur [] = flush cur"
| "tokens cur (c # cs) =
     (if is_space c then flush cur @ tokens [] cs
      else if c = CHR ''?'' then flush cur @ [[c]] @ tokens [] cs
      else tokens (cur @ [c]) cs)"

text \<open>
  The columns a WHERE clause of the join may name: the result aliases \<open>label\<close> (for
  \<open>l.name\<close>) and \<open>secret_name\<close> (for \<open>s.name\<close>).
\<close>

datatype column = ColLabel | ColSecretName

definition column_of :: "string \<Rightarrow> column option" where
  "column_of c =
     (if c = ''label'' \<or> c = ''l.name'' then Some ColLabel
      else if c = ''secret_name'' \<or> c = ''s.name'' then Some ColSecretName
      else None)"

fun split_on :: "'a \<Rightarrow> 'a list \<Rightarrow> 'a list list" where
  "split_on k [] = [[]]"
| "split_on k (x # xs) =
     (if x = k then [] # split_on k xs
      else (case split_on k xs of
              [] \<Rightarrow> [[x]]
            | g # gs \<Rightarrow> (x # g) # gs))"

text \<open>One comparison \<open>column GLOB ?\<close>.\<close>

fun parse_atom :: "string list \<Rightarrow> column option" where
  "parse_atom [c, g, p] = (if g = ''GLOB'' \<and> p = ''?'' then column_of c else None)"
| "parse_atom _ = None"

fun sequence :: "'a option list \<Rightarrow> 'a list option" where
  "sequence [] = Some []"
| "sequence (None # xs) = None"
| "sequence (Some x # xs) = (case sequence xs of None \<Rightarrow> None | Some ys \<Rightarrow> Some (x # ys))"

text \<open>
  A WHERE clause over GLOB comparisons, as SQL reads it: \<open>AND\<close> binds tighter than \<open>OR\<close>,
  so the expression is a disjunction of conjunctions. \<open>None\<close> is a syntax error (or an
  unknown column).
\<close>

definition parse_conj :: "string list \<Rightarrow> column list option" where
  "parse_conj ts = sequence (map parse_atom (split_on ''AND'' ts))"

definition parse_disj :: "string list \<Rightarrow> column list list option" where
  "parse_disj ts = sequence (map parse_conj (split_on ''OR'' ts))"

datatype where_clause = NoWhere | Where "column list list"

fun parse_where :: "string list \<Rightarrow> where_clause option" where
  "parse_where [] = Some NoWhere"
| "parse_where (t # ts) =
     (if t = ''WHERE'' then map_option Where (parse_disj ts) else None)"

text \<open>
  Evaluation on one joined row. The placeholders take the bound parameters from left to
  right; \<open>glob p x\<close> says whether the text \<open>x\<close> matches the pattern \<open>p\<close>
  (\<open>x GLOB p\<close>).
\<close>

definition column_value :: "secretLabelRow \<Rightarrow> column \<Rightarrow> string" where
  "column_value r c = (case c of ColLabel \<Rightarrow> row_label r | ColSecretName \<Rightarrow> row_name r)"

fun eval_conj :: "(string \<Rightarrow> string \<Rightarrow> bool) \<Rightarrow> secretLabelRow \<Rightarrow> column list \<Rightarrow> string list \<Rightarrow> bool" where
  "eval_conj glob r [] ps = True"
| "eval_conj glob r (c # cs) [] = False"
| "eval_conj glob r (c # cs) (p # ps) = (glob p (column_value r c) \<and> eval_conj glob r cs ps)"

fun eval_disj :: "(string \<Rightarrow> string \<Rightarrow> bool) \<Rightarrow> secretLabelRow \<Rightarrow> column list list \<Rightarrow> string list \<Rightarrow> bool" where
  "eval_disj glob r [] ps = False"
| "eval_disj glob r (cj # cjs) ps =
     (eval_conj glob r cj (take (length cj) ps) \<or> eval_disj glob r cjs (drop (length cj) ps))"

fun eval_where :: "(string \<Rightarrow> string \<Rightarrow> bool) \<Rightarrow> where_clause \<Rightarrow> string list \<Rightarrow> secretLabelRow \<Rightarrow> bool" where
  "eval_where glob NoWhere ps r = True"
| "eval_where glob (Where d) ps r = eval_disj glob r d ps"

fun placeholders :: "where_clause \<Rightarrow> nat" where
  "placeholders NoWhere = 0"
| "placeholders (Where d) = length (concat d)"

fun text_args :: "any list \<Rightarrow> string list option" where
  "text_args [] = Some []"
| "text_args (AnyString x # xs) = map_option ((#) x) (text_args xs)"
| "text_args (AnyInt i # xs) = None"

fun int_args :: "any list \<Rightarrow> int list option" where
  "int_args [] = Some []"
| "int_args (AnyInt i # xs) = map_option ((#) i) (int_args xs)"
| "int_args (AnyString x # xs) = None"

text \<open>
  \<open>secrets s JOIN labels l ON s.id = l.secret_id\<close>: one row for each secret and each of
  its labels, secret by secret; a secret with no label has no row.
\<close>

definition join_rows :: "DB \<Rightarrow> secretLabelRow list" where
  "join_rows d =
     concat (map (\<lambda>(sid, sname, _).
       map (\<lambda>(_, lname, _). \<lparr>row_id = sid, row_name = sname, row_label = lname\<rparr>)
         (filter (\<lambda>(_, _, secret_id). sid = secret_id) (labels d)))
       (secrets d))"

text \<open>The placeholder list \<open>?,?,...,?)\<close> that closes the query of \<open>SecretsByIDs\<close>.\<close>

fun parse_in_list :: "string list \<Rightarrow> nat option" where
  "parse_in_list [p, c] = (if p = ''?'' \<and> c = '')'' then Some 1 else None)"
| "parse_in_list (p # c # ts) =
     (if p = ''?'' \<and> c = '','' then map_option Suc (parse_in_list ts) else None)"
| "parse_in_list _ = None"

definition answer :: "secretLabelRow list \<Rightarrow> Rows" where
  "answer rs = \<lparr>stream = map Inr rs, rows_err = None\<rparr>"

text \<open>
  The engine executes the queries this package sends, by their SQL meaning, and answers
  any other text, and a parameter list that does not fit, with an error. Queries leave
  the tables as they are.
\<close>

definition engine_query :: "(string \<Rightarrow> string \<Rightarrow> bool) \<Rightarrow> string \<Rightarrow> any list \<Rightarrow> DB \<Rightarrow> (error + Rows) \<times> DB" where
  "engine_query glob q args d =
     (if take (length selectJoinIDs) q = selectJoinIDs then
        (case (parse_in_list (tokens [] (drop (length selectJoinIDs) q)), int_args args) of
           (Some n, Some ids) \<Rightarrow>
             (if n = length ids
              then (Inr (answer (filter (\<lambda>r. row_id r \<in> set ids) (join_rows d))), d)
              else (Inl (StorageError ''wrong number of parameters''), d))
         | _ \<Rightarrow> (Inl (StorageError ''statement not understood''), d))
      else if take (length selectJoin) q = selectJoin then
        (case (parse_where (tokens [] (drop (length selectJoin) q)), text_args args) of
           (Some w, Some ps) \<Rightarrow>
             (if placeholders w = length ps
              then (Inr (answer (filter (eval_where glob w ps) (join_rows d))), d)
              else (Inl (StorageError ''wrong number of parameters''), d))
         | _ \<Rightarrow> (Inl (StorageError ''statement not understood''), d))
      else (Inl (StorageError ''statement not understood''), d))"

text \<open>
  Statements on one table are cut into tokens at blanks, tabs and newlines, with
  parentheses, commas and \<open>=\<close> as tokens of their own.
\<close>

definition is_punct :: "char \<Rightarrow> bool" where
  "is_punct c = (c = CHR ''('' \<or> c = CHR '')'' \<or> c = CHR '','' \<or> c = CHR ''='')"

fun lex :: "string \<Rightarrow> string \<Rightarrow> string list" where
  "lex cur [] = flush cur"
| "lex cur (c # cs) =
     (if is_space c then flush cur @ lex [] cs
      else if is_punct c then flush cur @ [c] # lex [] cs
      else lex (cur @ [c]) cs)"

definition is_word :: "string \<Rightarrow> bool" where
  "is_word t = (case t of [] \<Rightarrow> False | c # _ \<Rightarrow> \<not> is_punct c)"

text \<open>A value in a statement: an integer literal, or the parameter \<open>$n\<close>.\<close>

datatype expr = Lit int | Param nat

text \<open>The place of a decimal digit among the ten digits is its value.\<close>

fun position :: "'a \<Rightarrow> 'a list \<Rightarrow> nat option" where
  "position x [] = None"
| "position x (y # ys) = (if x = y then Some 0 else map_option Suc (position x ys))"

definition digit :: "char \<Rightarrow> nat option" where
  "digit c = position c ''0123456789''"

fun number :: "nat \<Rightarrow> string \<Rightarrow> nat option" where
  "number acc [] = Some acc"
| "number acc (c # cs) = (case digit c of None \<Rightarrow> None | Some k \<Rightarrow> number (10 * acc + k) cs)"

definition parse_expr :: "string \<Rightarrow> expr option" where
  "parse_expr t =
     (case t of
        [] \<Rightarrow> None
      | c # cs \<Rightarrow>
          if c = CHR ''$'' then (if cs = [] then None else map_option Param (number 0 cs))
          else map_option (\<lambda>n. Lit (int n)) (number 0 (c # cs)))"

text \<open>A list \<open>x, y, ...)\<close> after its opening parenthesis: the items and the tokens that follow.\<close>

fun items :: "string list \<Rightarrow> (string list \<times> string list) option" where
  "items (x # s # rest) =
     (if \<not> is_word x then None
      else if s = '')'' then Some ([x], rest)
      else if s = '','' then
        (case items rest of None \<Rightarrow> None | Some (xs, r) \<Rightarrow> Some (x # xs, r))
      else None)"
| "items _ = None"

definition parens :: "string list \<Rightarrow> (string list \<times> string list) option" where
  "parens ts = (case ts of [] \<Rightarrow> None | t # rest \<Rightarrow> if t = ''('' then items rest else None)"

text \<open>
  What an INSERT does when the new row meets a row with the same unique key: fail (no
  clause), \<open>ON CONFLICT (c) DO NOTHING\<close>, or
  \<open>ON CONFLICT (c) DO UPDATE SET c1 = c2\<close>.
\<close>

datatype conflict = Abort | DoNothing string | DoUpdate string string string

fun parse_conflict :: "string list \<Rightarrow> conflict option" where
  "parse_conflict [] = Some Abort"
| "parse_conflict [t1, t2, t3, c, t4, t5, t6] =
     (if [t1, t2, t3, t4, t5, t6] = [''ON'', ''CONFLICT'', ''('', '')'', ''DO'', ''NOTHING'']
      then Some (DoNothing c) else None)"
| "parse_conflict [t1, t2, t3, c, t4, t5, t6, t7, c1, t8, c2] =
     (if [t1, t2, t3, t4, t5, t6, t7, t8] =
           [''ON'', ''CONFLICT'', ''('', '')'', ''DO'', ''UPDATE'', ''SET'', ''='']
      then Some (DoUpdate c c1 c2) else None)"
| "parse_conflict _ = None"

text \<open>
  \<open>INSERT INTO t (columns) VALUES (values) [conflict clause]\<close> and
  \<open>SELECT c FROM t WHERE k = value\<close>.
\<close>

datatype stmt =
    Insert string "string list" "expr list" conflict
  | Select string string string expr

definition parse_insert :: "string list \<Rightarrow> stmt option" where
  "parse_insert ts =
     (case ts of
        t1 # t2 # t # rest \<Rightarrow>
          (if t1 = ''INSERT'' \<and> t2 = ''INTO'' \<and> is_word t then
             (case parens rest of
                Some (cols, v # rest') \<Rightarrow>
                  (if v = ''VALUES'' then
                     (case parens rest' of
                        Some (vals, rest'') \<Rightarrow>
                          (case (sequence (map parse_expr vals), parse_conflict rest'') of
                             (Some es, Some c) \<Rightarrow>
                               (if length es = length cols then Some (Insert t cols es c) else None)
                           | _ \<Rightarrow> None)
                      | None \<Rightarrow> None)
                   else None)
              | _ \<Rightarrow> None)
           else None)
      | _ \<Rightarrow> None)"

fun parse_select :: "string list \<Rightarrow> stmt option" where
  "parse_select [t1, c, t2, t, t3, k, t4, v] =
     (if [t1, t2, t3, t4] = [''SELECT'', ''FROM'', ''WHERE'', ''='']
         \<and> is_word c \<and> is_word t \<and> is_word k
      then map_option (Select c t k) (parse_expr v) else None)"
| "parse_select _ = None"

definition parse_stmt :: "string \<Rightarrow> stmt option" where
  "parse_stmt q =
     (case lex [] q of
        [] \<Rightarrow> None
      | t # ts \<Rightarrow>
          if t = ''INSERT'' then parse_insert (t # ts)
          else if t = ''SELECT'' then parse_select (t # ts)
          else None)"

text \<open>The parameter \<open>$n\<close> is the n-th bound parameter.\<close>

fun eval_expr :: "any list \<Rightarrow> expr \<Rightarrow> any option" where
  "eval_expr args (Lit i) = Some (AnyInt i)"
| "eval_expr args (Param n) = (if 0 < n \<and> n \<le> length args then Some (args ! (n - 1)) else None)"

fun is_param :: "expr \<Rightarrow> bool" where
  "is_param (Lit i) = False"
| "is_param (Param n) = True"

text \<open>The row of \<open>master_key\<close> that a column list and its values make: an integer id and a text key.\<close>

definition master_key_row :: "string list \<Rightarrow> any list \<Rightarrow> (int \<times> string) option" where
  "master_key_row cols vals =
     (case (map_of (zip cols vals) ''id'', map_of (zip cols vals) ''key'') of
        (Some (AnyInt i), Some (AnyString k)) \<Rightarrow> Some (i, k)
      | _ \<Rightarrow> None)"

text \<open>
  The conflict clauses the table \<open>master_key\<close> admits: its one unique column is \<open>id\<close>,
  and the one other column an update can set is \<open>key\<close>, from the row that was to be
  inserted.
\<close>

fun conflict_ok :: "conflict \<Rightarrow> bool" where
  "conflict_ok Abort = True"
| "conflict_ok (DoNothing c) = (c = ''id'')"
| "conflict_ok (DoUpdate c c1 c2) = (c = ''id'' \<and> c1 = ''key'' \<and> c2 = ''EXCLUDED.key'')"

text \<open>
  An INSERT into \<open>master_key\<close>. The row is added when no row has its id. When one has,
  the conflict clause decides: without a clause the statement fails on the unique id,
  \<open>DO NOTHING\<close> leaves the table as it is, \<open>DO UPDATE\<close> writes the new key over the old.
\<close>

definition insert_master_key :: "string list \<Rightarrow> expr list \<Rightarrow> conflict \<Rightarrow> any list \<Rightarrow> DB \<Rightarrow> (error + Result) \<times> DB" where
  "insert_master_key cols es c args d =
     (if length (filter is_param es) \<noteq> length args
      then (Inl (StorageError ''wrong number of parameters''), d)
      else if \<not> conflict_ok c
      then (Inl (StorageError ''conflict clause matches no unique column''), d)
      else
        (case sequence (map (eval_expr args) es) of
           None \<Rightarrow> (Inl (StorageError ''wrong number of parameters''), d)
         | Some vals \<Rightarrow>
             (case master_key_row cols vals of
                None \<Rightarrow> (Inl (StorageError ''datatype mismatch''), d)
              | Some (i, k) \<Rightarrow>
                  (if \<exists>row \<in> set (master_key d). fst row = i then
                     (case c of
                        Abort \<Rightarrow> (Inl (StorageError ''UNIQUE constraint failed''), d)
                      | DoNothing _ \<Rightarrow> (Inr \<lparr>RowsAffected = 0\<rparr>, d)
                      | DoUpdate _ _ _ \<Rightarrow>
                          (Inr \<lparr>RowsAffected = 1\<rparr>,
                           d\<lparr>master_key :=
                               map (\<lambda>row. if fst row = i then (i, k) else row) (master_key d)\<rparr>))
                   else (Inr \<lparr>RowsAffected = 1\<rparr>, d\<lparr>master_key := master_key d @ [(i, k)]\<rparr>)))))"

text \<open>
  The engine reads the statement it is sent and executes it on the table \<open>master_key\<close>;
  a text it cannot read, and a statement on another table, get an error.
\<close>

definition engine_exec :: "string \<Rightarrow> any list \<Rightarrow> DB \<Rightarrow> (error + Result) \<times> DB" where
  "engine_exec q args d =
     (case parse_stmt q of
        Some (Insert t cols es c) \<Rightarrow>
          (if t = ''master_key'' then insert_master_key cols es c args d
           else (Inl (StorageError ''statement not understood''), d))
      | _ \<Rightarrow> (Inl (StorageError ''statement not understood''), d))"

text \<open>
  \<open>SELECT key FROM master_key WHERE id = value\<close>, scanned into a string: the key of the
  first row with that id, or \<open>sql.ErrNoRows\<close>.
\<close>

definition engine_query_row :: "string \<Rightarrow> any list \<Rightarrow> DB \<Rightarrow> (error + string) \<times> DB" where
  "engine_query_row q args d =
     (case parse_stmt q of
        Some (Select c t k e) \<Rightarrow>
          (if t = ''master_key'' \<and> c = ''key'' \<and> k = ''id'' then
             (if length (filter is_param [e]) \<noteq> length args
              then (Inl (StorageError ''wrong number of parameters''), d)
              else
                (case eval_expr args e of
                   Some (AnyInt i) \<Rightarrow>
                     (case filter (\<lambda>row. fst row = i) (master_key d) of
                        [] \<Rightarrow> (Inl ErrNoRows, d)
                      | row # _ \<Rightarrow> (Inr (snd row), d))
                 | _ \<Rightarrow> (Inl (StorageError ''datatype mismatch''), d)))
           else (Inl (StorageError ''statement not understood''), d))
      | _ \<Rightarrow> (Inl (StorageError ''statement not understood''), d))"

definition engine :: "(string \<Rightarrow> string \<Rightarrow> bool) \<Rightarrow> DB DBTX" where
  "engine glob =
     \<lparr>ExecContext = engine_exec,
      QueryContext = engine_query glob,
      QueryRowContext = engine_query_row\<rparr>"


text \<open>
  A matcher for patterns made of literal characters, \<open>*\<close> (any run of characters) and
  \<open>?\<close> (any one character): what GLOB does on patterns with no bracket.
\<close>

fun wildcard :: "string \<Rightarrow> string \<Rightarrow> bool" where
  "wildcard [] x = (x = [])"
| "wildcard (p # ps) [] = (p = CHR ''*'' \<and> wildcard ps [])"
| "wildcard (p # ps) (c # cs) =
     (if p = CHR ''*'' then wildcard ps (c # cs) \<or> wildcard (p # ps) cs
      else (p = CHR ''?'' \<or> p = c) \<and> wildcard ps cs)"

text \<open>A handle that answers every query with the same rows, and nothing else.\<close>

definition stub :: "Rows \<Rightarrow> unit DBTX" where
  "stub rows =
     \<lparr>ExecContext = (\<lambda>q args st. (Inl (StorageError ''stub''), st)),
      QueryContext = (\<lambda>q args st. (Inr rows, st)),
      QueryRowContext = (\<lambda>q args st. (Inl (StorageError ''stub''), st))\<rparr>"

text \<open>What a search result holds for one id: nothing when the mapping is nil.\<close>

definition found :: "secrets_result \<times> 's \<Rightarrow> int \<Rightarrow> LabeledSecret option" where
  "found r i = (case fst (fst r) of None \<Rightarrow> None | Some m \<Rightarrow> m i)"

text \<open>A result stream fails when the Scan of some row fails or the iteration ends in error.\<close>

definition fails :: "Rows \<Rightarrow> bool" where
  "fails rows = ((\<exists>x \<in> set (stream rows). isl x) \<or> rows_err rows \<noteq> None)"

section \<open>The predicate builder: lemmas\<close>

lemma fold_fill_aux:
  "k \<le> length xs \<Longrightarrow> fold (\<lambda>i ys. ys[i := v]) [0..<k] xs = replicate k v @ drop k xs"
proof (induction k)
  case 0
  then show ?case by simp
next
  case (Suc k)
  then have k: "k < length xs" by simp
  have "fold (\<lambda>i ys. ys[i := v]) [0..<Suc k] xs = (replicate k v @ drop k xs)[k := v]"
    using Suc by simp
  also have "\<dots> = replicate k v @ (drop k xs)[0 := v]"
    by (simp add: list_update_append)
  also have "(drop k xs)[0 := v] = v # drop (Suc k) xs"
    using k by (simp add: Cons_nth_drop_Suc [symmetric])
  finally show ?case by (simp add: replicate_append_same)
qed

lemma fill_replicate: "fill n v = replicate n v"
  using fold_fill_aux [of n "replicate n []" v] by (simp add: fill_def)

lemma Join_replicate_Suc:
  "Join (replicate (Suc n) x) sep = x @ concat (replicate n (sep @ x))"
  by (induction n) simp_all

lemma whereGlobOrClause_text:
  assumes "ps \<noteq> []"
  shows "whereGlobOrClause c ps =
     ''WHERE '' @ c @ '' GLOB ?'' @ concat (replicate (length ps - 1) ('' OR '' @ c @ '' GLOB ?''))"
proof -
  obtain n where n: "length ps = Suc n"
    using assms by (cases ps) auto
  show ?thesis
    using assms unfolding whereGlobOrClause_def fill_replicate n Let_def Join_replicate_Suc
    by simp
qed

lemma whereGlobOrClause_length:
  "length ps = length ps' \<Longrightarrow> whereGlobOrClause c ps = whereGlobOrClause c ps'"
  by (simp add: whereGlobOrClause_def)

lemma count_concat_replicate:
  "count_list (concat (replicate n xs)) a = n * count_list xs a"
  by (induction n) simp_all

section \<open>The row aggregator: lemmas\<close>

lemma reduce_loop_lookup:
  "reduce_loop m rows i =
     (case filter (\<lambda>r. row_id r = i) rows of
        [] \<Rightarrow> m i
      | r # rs \<Rightarrow>
          (case m i of
             None \<Rightarrow> Some \<lparr>Name = row_name r, Labels = map row_label (r # rs)\<rparr>
           | Some v \<Rightarrow> Some (v\<lparr>Labels := Labels v @ map row_label (r # rs)\<rparr>)))"
proof (induction rows arbitrary: m)
  case Nil
  then show ?case by simp
next
  case (Cons s rows)
  show ?case
    by (simp add: Cons.IH reduce_step_def split: list.splits option.splits)
qed

lemma reduce_lookup:
  "reduce rows i =
     (case filter (\<lambda>r. row_id r = i) rows of
        [] \<Rightarrow> None
      | r # rs \<Rightarrow> Some \<lparr>Name = row_name r, Labels = map row_label (r # rs)\<rparr>)"
  by (simp add: reduce_def reduce_loop_lookup split: list.splits)

lemma dom_reduce: "dom (reduce rows) = row_id ` set rows"
proof
  show "dom (reduce rows) \<subseteq> row_id ` set rows"
  proof
    fix i assume "i \<in> dom (reduce rows)"
    then have "filter (\<lambda>r. row_id r = i) rows \<noteq> []"
      by (auto simp: reduce_lookup dom_def)
    then show "i \<in> row_id ` set rows"
      by (auto simp: filter_empty_conv)
  qed
next
  show "row_id ` set rows \<subseteq> dom (reduce rows)"
  proof
    fix i assume "i \<in> row_id ` set rows"
    then have "filter (\<lambda>r. row_id r = i) rows \<noteq> []"
      by (auto simp: filter_empty_conv)
    then show "i \<in> dom (reduce rows)"
      by (auto simp: reduce_lookup dom_def split: list.splits)
  qed
qed

lemma Labels_reduce:
  "Labels (the (reduce rows i)) = map row_label (filter (\<lambda>r. row_id r = i) rows)"
  if "i \<in> dom (reduce rows)"
  using that by (auto simp: reduce_lookup dom_def split: list.splits)

lemma sum_length_filter:
  "finite A \<Longrightarrow> f ` set xs \<subseteq> A \<Longrightarrow> (\<Sum>i\<in>A. length (filter (\<lambda>x. f x = i) xs)) = length xs"
proof (induction xs)
  case Nil
  then show ?case by simp
next
  case (Cons x xs)
  have "(\<Sum>i\<in>A. length (filter (\<lambda>y. f y = i) (x # xs)))
      = (\<Sum>i\<in>A. (if f x = i then 1 else 0) + length (filter (\<lambda>y. f y = i) xs))"
    by (rule sum.cong) auto
  also have "\<dots> = (\<Sum>i\<in>A. (if f x = i then 1 else 0)) + (\<Sum>i\<in>A. length (filter (\<lambda>y. f y = i) xs))"
    by (simp add: sum.distrib)
  also have "(\<Sum>i\<in>A. (if f x = i then 1 else 0 :: nat)) = 1"
    using Cons.prems by simp
  finally show ?case using Cons by simp
qed

section \<open>The store facade: lemmas\<close>

lemma scan_loop_fails:
  "\<exists>x \<in> set xs. isl x \<Longrightarrow> \<exists>err. scan_loop acc xs = Inl err"
proof (induction xs arbitrary: acc)
  case Nil
  then show ?case by simp
next
  case (Cons x xs)
  then show ?case by (cases x) auto
qed

lemma scan_loop_decoded: "scan_loop acc (map Inr rs) = Inr (acc @ rs)"
  by (induction rs arbitrary: acc) simp_all

lemma secretsJoinLabels_fails:
  assumes "QueryContext (db s) q args st = (Inr rows, st')" and "fails rows"
  shows "\<exists>err. fst (secretsJoinLabels s q args st) = (None, Some err)"
proof (cases "\<exists>x \<in> set (stream rows). isl x")
  case True
  then obtain err where "scan_loop [] (stream rows) = Inl err"
    using scan_loop_fails by blast
  then show ?thesis using assms(1) by (simp add: secretsJoinLabels_def)
next
  case False
  then obtain err where "rows_err rows = Some err"
    using assms(2) by (auto simp: fails_def)
  then show ?thesis using assms(1)
    by (simp add: secretsJoinLabels_def split: sum.splits)
qed

lemma secretsJoinLabels_all_or_nothing:
  "(\<exists>err. fst (secretsJoinLabels s q args st) = (None, Some err)) \<or>
   (\<exists>m. fst (secretsJoinLabels s q args st) = (Some m, None))"
  by (simp add: secretsJoinLabels_def split: prod.splits sum.splits option.splits)

lemma secretsJoinLabels_recording:
  "snd (snd (secretsJoinLabels \<lparr>db = recording d\<rparr> q args (st, log))) = log @ [Query q args]"
  by (simp add: secretsJoinLabels_def recording_def split: prod.splits sum.splits option.splits)

lemma secretsJoinLabels_answer:
  "QueryContext (db s) q args st = (Inr (answer rs), st') \<Longrightarrow>
     secretsJoinLabels s q args st = ((Some (reduce rs), None), st')"
  by (simp add: secretsJoinLabels_def answer_def scan_loop_decoded)

section \<open>The storage engine: lemmas\<close>

lemma not_ids_prefix: "take (length selectJoinIDs) (selectJoin @ rest) \<noteq> selectJoinIDs"
  by (simp add: selectJoin_def selectJoinIDs_def)

lemma engine_query_join:
  "engine_query glob (selectJoin @ rest) args d =
     (case (parse_where (tokens [] rest), text_args args) of
        (Some w, Some ps) \<Rightarrow>
          (if placeholders w = length ps
           then (Inr (answer (filter (eval_where glob w ps) (join_rows d))), d)
           else (Inl (StorageError ''wrong number of parameters''), d))
      | _ \<Rightarrow> (Inl (StorageError ''statement not understood''), d))"
  unfolding engine_query_def using not_ids_prefix [of rest] by simp

lemma engine_query_no_where:
  "engine_query glob selectJoin [] d = (Inr (answer (join_rows d)), d)"
  using engine_query_join [of glob "[]" "[]" d] by (simp add: flush_def)

lemma SecretsByColumn_no_patterns:
  "SecretsByColumn \<lparr>db = engine glob\<rparr> col [] d = ((Some (reduce (join_rows d)), None), d)"
proof -
  have "QueryContext (db \<lparr>db = engine glob\<rparr>) (SecretsByColumn_query col []) [] d =
        (Inr (answer (join_rows d)), d)"
    unfolding SecretsByColumn_query_def engine_def
    by (simp add: engine_query_no_where whereGlobOrClause_def)
  then show ?thesis
    by (simp add: SecretsByColumn_def ToAnySlice_string_def secretsJoinLabels_answer)
qed

text \<open>
  What \<open>SecretsByLabelsAndName\<close> returns on the engine, for any non-empty list of label
  patterns: the name pattern guards the last label pattern only. A row whose label
  matches an earlier pattern passes whatever its name.
\<close>

lemma tokens_or_atom:
  "tokens [] ('' OR label GLOB ?'' @ rest) = [''OR'', ''label'', ''GLOB'', ''?''] @ tokens [] rest"
  by (simp add: is_space_def flush_def)

lemma tokens_or_atoms:
  "tokens [] (concat (replicate n '' OR label GLOB ?'') @ rest) =
     concat (replicate n [''OR'', ''label'', ''GLOB'', ''?'']) @ tokens [] rest"
proof (induction n)
  case 0
  then show ?case by simp
next
  case (Suc n)
  have "tokens [] (concat (replicate (Suc n) '' OR label GLOB ?'') @ rest) =
        tokens [] ('' OR label GLOB ?'' @ (concat (replicate n '' OR label GLOB ?'') @ rest))"
    by simp
  also have "\<dots> = [''OR'', ''label'', ''GLOB'', ''?''] @
        tokens [] (concat (replicate n '' OR label GLOB ?'') @ rest)"
    by (rule tokens_or_atom)
  finally show ?case by (simp add: Suc.IH)
qed

lemma tokens_where_atom:
  "tokens [] (''WHERE label GLOB ?'' @ rest) = [''WHERE'', ''label'', ''GLOB'', ''?''] @ tokens [] rest"
  by (simp add: is_space_def flush_def)

lemma tokens_and_name:
  "tokens [] ''AND secret_name GLOB ?'' = [''AND'', ''secret_name'', ''GLOB'', ''?'']"
  by (simp add: is_space_def flush_def)

lemma tokens_labels_and_name:
  "tokens [] (whereGlobOrClause ''label'' (ps @ [p]) @ ''AND secret_name GLOB ?'') =
     ''WHERE'' # concat (replicate (length ps) [''label'', ''GLOB'', ''?'', ''OR'']) @
     [''label'', ''GLOB'', ''?'', ''AND'', ''secret_name'', ''GLOB'', ''?'']"
proof -
  have shift: "[''label'', ''GLOB'', ''?''] @ concat (replicate n [''OR'', ''label'', ''GLOB'', ''?'']) @ t =
      concat (replicate n [''label'', ''GLOB'', ''?'', ''OR'']) @ [''label'', ''GLOB'', ''?''] @ t"
    for n and t :: "string list"
    by (induction n) simp_all
  have "whereGlobOrClause ''label'' (ps @ [p]) @ ''AND secret_name GLOB ?'' =
      ''WHERE label GLOB ?'' @ (concat (replicate (length ps) '' OR label GLOB ?'') @ ''AND secret_name GLOB ?'')"
    using whereGlobOrClause_text [of "ps @ [p]" "''label''"] by simp
  then have "tokens [] (whereGlobOrClause ''label'' (ps @ [p]) @ ''AND secret_name GLOB ?'') =
      [''WHERE'', ''label'', ''GLOB'', ''?''] @
      concat (replicate (length ps) [''OR'', ''label'', ''GLOB'', ''?'']) @
      [''AND'', ''secret_name'', ''GLOB'', ''?'']"
    by (simp only: tokens_where_atom tokens_or_atoms tokens_and_name)
  also have "\<dots> = ''WHERE'' # concat (replicate (length ps) [''label'', ''GLOB'', ''?'', ''OR'']) @
     [''label'', ''GLOB'', ''?'', ''AND'', ''secret_name'', ''GLOB'', ''?'']"
    using shift [of "length ps" "[''AND'', ''secret_name'', ''GLOB'', ''?'']"] by simp
  finally show ?thesis .
qed

lemma split_on_nonempty: "split_on k xs \<noteq> []"
  by (induction xs) (auto split: list.splits)

lemma split_on_or_atoms:
  "split_on ''OR'' (concat (replicate n [''label'', ''GLOB'', ''?'', ''OR'']) @ rest) =
     replicate n [''label'', ''GLOB'', ''?''] @ split_on ''OR'' rest"
  by (induction n) simp_all

lemma parse_disj_labels_and_name:
  "parse_disj (concat (replicate n [''label'', ''GLOB'', ''?'', ''OR'']) @
     [''label'', ''GLOB'', ''?'', ''AND'', ''secret_name'', ''GLOB'', ''?'']) =
     Some (replicate n [ColLabel] @ [[ColLabel, ColSecretName]])"
proof -
  have seq: "sequence (map parse_conj (replicate n [''label'', ''GLOB'', ''?''] @ rest)) =
      (case sequence (map parse_conj rest) of None \<Rightarrow> None
       | Some cs \<Rightarrow> Some (replicate n [ColLabel] @ cs))" for rest
    by (induction n) (simp_all add: parse_conj_def column_of_def split: option.splits)
  show ?thesis
    unfolding parse_disj_def split_on_or_atoms seq
    by (simp add: parse_conj_def column_of_def)
qed

lemma eval_disj_labels_and_name:
  "eval_disj glob r (replicate (length ps) [ColLabel] @ [[ColLabel, ColSecretName]]) (ps @ [p, name]) =
     ((\<exists>q \<in> set ps. glob q (row_label r)) \<or> glob p (row_label r) \<and> glob name (row_name r))"
  by (induction ps) (auto simp: column_value_def)

lemma text_args_strings: "text_args (map AnyString xs) = Some xs"
  by (induction xs) simp_all

lemma SecretsByLabelsAndName_engine:
  "SecretsByLabelsAndName \<lparr>db = engine glob\<rparr> name (ps @ [p]) d =
     ((Some (reduce (filter
        (\<lambda>r. (\<exists>q \<in> set ps. glob q (row_label r)) \<or> glob p (row_label r) \<and> glob name (row_name r))
        (join_rows d))), None), d)"
proof -
  let ?w = "Where (replicate (length ps) [ColLabel] @ [[ColLabel, ColSecretName]])"
  have w: "eval_where glob ?w (ps @ [p, name]) =
      (\<lambda>r. (\<exists>q \<in> set ps. glob q (row_label r)) \<or> glob p (row_label r) \<and> glob name (row_name r))"
    by (rule ext) (simp add: eval_disj_labels_and_name)
  have args: "text_args (map AnyString ps @ [AnyString p, AnyString name]) = Some (ps @ [p, name])"
    using text_args_strings [of "ps @ [p, name]"] by simp
  have "engine_query glob (selectJoin @ whereGlobOrClause ''label'' (ps @ [p]) @ ''AND secret_name GLOB ?'')
          (map AnyString ps @ [AnyString p, AnyString name]) d =
        (Inr (answer (filter (eval_where glob ?w (ps @ [p, name])) (join_rows d))), d)"
    unfolding engine_query_join tokens_labels_and_name args
    by (simp add: parse_disj_labels_and_name)
  then have "QueryContext (db \<lparr>db = engine glob\<rparr>) (SecretsByLabelsAndName_query (ps @ [p]))
          (ToAnySlice_string (ps @ [p]) @ [AnyString name]) d =
        (Inr (answer (filter
          (\<lambda>r. (\<exists>q \<in> set ps. glob q (row_label r)) \<or> glob p (row_label r) \<and> glob name (row_name r))
          (join_rows d))), d)"
    unfolding w by (simp add: SecretsByLabelsAndName_query_def engine_def ToAnySlice_string_def)
  then show ?thesis
    by (simp add: SecretsByLabelsAndName_def secretsJoinLabels_answer)
qed

lemma SecretsByLabelsAndName_one:
  "SecretsByLabelsAndName \<lparr>db = engine glob\<rparr> name [l] d =
     ((Some (reduce (filter (\<lambda>r. glob l (row_label r) \<and> glob name (row_name r))
        (join_rows d))), None), d)"
  using SecretsByLabelsAndName_engine [of glob name "[]" l d] by simp

lemma SecretsByLabelsAndName_two:
  "SecretsByLabelsAndName \<lparr>db = engine glob\<rparr> name [l1, l2] d =
     ((Some (reduce (filter
        (\<lambda>r. glob l1 (row_label r) \<or> glob l2 (row_label r) \<and> glob name (row_name r))
        (join_rows d))), None), d)"
  using SecretsByLabelsAndName_engine [of glob name "[l1]" l2 d] by simp

lemma parse_insertMasterKey:
  "parse_stmt insertMasterKey =
     Some (Insert ''master_key'' [''id'', ''key''] [Lit 0, Param 1] (DoNothing ''id''))"
  by (simp add: parse_stmt_def insertMasterKey_def is_space_def is_punct_def flush_def
      parse_insert_def parens_def is_word_def parse_expr_def digit_def)


lemma engine_exec_insertMasterKey:
  "engine_exec insertMasterKey [AnyString key] d =
     (if \<exists>row \<in> set (master_key d). fst row = 0
      then (Inr \<lparr>RowsAffected = 0\<rparr>, d)
      else (Inr \<lparr>RowsAffected = 1\<rparr>, d\<lparr>master_key := master_key d @ [(0, key)]\<rparr>))"
  by (simp add: engine_exec_def parse_insertMasterKey insert_master_key_def master_key_row_def)

lemma engine_exec_conflict:
  "\<exists>row \<in> set (master_key d). fst row = 0 \<Longrightarrow>
     engine_exec insertMasterKey [AnyString key] d = (Inr \<lparr>RowsAffected = 0\<rparr>, d)"
  by (simp add: engine_exec_insertMasterKey)

lemma engine_exec_fresh:
  "master_key d = [] \<Longrightarrow>
     engine_exec insertMasterKey [AnyString key] d =
       (Inr \<lparr>RowsAffected = 1\<rparr>, d\<lparr>master_key := [(0, key)]\<rparr>)"
  by (simp add: engine_exec_insertMasterKey)




text \<open>
  With no pattern the secrets returned are those of the secrets table that have a row in
  the labels table.
\<close>

lemma set_join_rows:
  "set (join_rows d) =
     {\<lparr>row_id = sid, row_name = sname, row_label = lname\<rparr> | sid sname secret lid lname.
        (sid, sname, secret) \<in> set (secrets d) \<and> (lid, lname, sid) \<in> set (labels d)}"
  unfolding join_rows_def by (auto simp: image_iff split: prod.splits) blast+

lemma ids_join_rows:
  "row_id ` set (join_rows d) =
     {sid. (\<exists>sname secret. (sid, sname, secret) \<in> set (secrets d)) \<and>
           (\<exists>lid lname. (lid, lname, sid) \<in> set (labels d))}"
proof (rule set_eqI)
  fix sid
  show "sid \<in> row_id ` set (join_rows d) \<longleftrightarrow>
        sid \<in> {sid. (\<exists>sname secret. (sid, sname, secret) \<in> set (secrets d)) \<and>
           (\<exists>lid lname. (lid, lname, sid) \<in> set (labels d))}"
  proof
    assume "sid \<in> row_id ` set (join_rows d)"
    then obtain r where "r \<in> set (join_rows d)" and "row_id r = sid" by auto
    then show "sid \<in> {sid. (\<exists>sname secret. (sid, sname, secret) \<in> set (secrets d)) \<and>
           (\<exists>lid lname. (lid, lname, sid) \<in> set (labels d))}"
      unfolding set_join_rows by auto blast+
  next
    assume "sid \<in> {sid. (\<exists>sname secret. (sid, sname, secret) \<in> set (secrets d)) \<and>
           (\<exists>lid lname. (lid, lname, sid) \<in> set (labels d))}"
    then obtain sname secret lid lname
      where "(sid, sname, secret) \<in> set (secrets d)" and "(lid, lname, sid) \<in> set (labels d)"
      by auto
    then have "\<lparr>row_id = sid, row_name = sname, row_label = lname\<rparr> \<in> set (join_rows d)"
      unfolding set_join_rows by blast
    then show "sid \<in> row_id ` set (join_rows d)"
      by force
  qed
qed

lemma SecretsByColumn_no_patterns_ids:
  "(found (SecretsByColumn \<lparr>db = engine glob\<rparr> col [] d) sid \<noteq> None) =
     ((\<exists>sname secret. (sid, sname, secret) \<in> set (secrets d)) \<and>
      (\<exists>lid lname. (lid, lname, sid) \<in> set (labels d)))"
proof -
  have "(found (SecretsByColumn \<lparr>db = engine glob\<rparr> col [] d) sid \<noteq> None) =
        (sid \<in> dom (reduce (join_rows d)))"
    by (auto simp: SecretsByColumn_no_patterns found_def)
  also have "\<dots> = (sid \<in> row_id ` set (join_rows d))"
    by (simp add: dom_reduce)
  finally show ?thesis
    unfolding ids_join_rows by simp
qed

section \<open>What the handle is sent\<close>

lemma SecretsByColumn_recording:
  "snd (snd (SecretsByColumn \<lparr>db = recording d\<rparr> c ps (st, log))) =
     log @ [Query (SecretsByColumn_query c ps) (map AnyString ps)]"
  by (simp add: SecretsByColumn_def ToAnySlice_string_def secretsJoinLabels_recording)

lemma SecretsByLabelsAndName_recording:
  "ls \<noteq> [] \<Longrightarrow>
   snd (snd (SecretsByLabelsAndName \<lparr>db = recording d\<rparr> name ls (st, log))) =
     log @ [Query (SecretsByLabelsAndName_query ls) (map AnyString ls @ [AnyString name])]"
  by (simp add: SecretsByLabelsAndName_def ToAnySlice_string_def secretsJoinLabels_recording)

lemma SecretsByIDs_recording:
  "ids \<noteq> [] \<Longrightarrow>
   snd (snd (SecretsByIDs \<lparr>db = recording d\<rparr> ids (st, log))) =
     log @ [Query (SecretsByIDs_query ids) (map AnyInt ids)]"
  by (simp add: SecretsByIDs_def ToAnySlice_int_def secretsJoinLabels_recording)

lemma count_clause:
  assumes "CHR ''?'' \<notin> set c"
  shows "count_list (whereGlobOrClause c ps) (CHR ''?'') = length ps"
proof (cases "ps = []")
  case True
  then show ?thesis by (simp add: whereGlobOrClause_def)
next
  case False
  then obtain n where n: "length ps = Suc n" by (cases ps) auto
  have c: "count_list c (CHR ''?'') = 0"
    using assms by (simp add: count_list_0_iff)
  show ?thesis
    unfolding whereGlobOrClause_text [OF False] n
    by (simp add: count_concat_replicate c)
qed

section \<open>Claims\<close>

text \<open>
  Claim C3. \<open>SecretsByIDs\<close> with an empty id list returns the nil mapping and the sentinel
  \<open>ErrNoIDsProvided\<close>, and \<open>SecretsByLabelsAndName\<close> with an empty label list returns the
  nil mapping and the sentinel \<open>ErrNoLabelsProvided\<close>; whatever the handle of the store is,
  its storage is left as it was, and a recording handle has recorded no call.
\<close>

theorem precondition_short_circuit:
  "SecretsByIDs s [] st = ((None, Some ErrNoIDsProvided), st) \<and>
   SecretsByLabelsAndName s name [] st = ((None, Some ErrNoLabelsProvided), st) \<and>
   snd (snd (SecretsByIDs \<lparr>db = recording d\<rparr> [] (st', log))) = log \<and>
   snd (snd (SecretsByLabelsAndName \<lparr>db = recording d\<rparr> name [] (st', log))) = log"
  by (simp add: SecretsByIDs_def SecretsByLabelsAndName_def)

theorem precondition_short_circuit_witness:
  "SecretsByIDs \<lparr>db = recording (stub \<lparr>stream = [], rows_err = None\<rparr>)\<rparr> [] ((), []) =
     ((None, Some ErrNoIDsProvided), ((), [])) \<and>
   SecretsByLabelsAndName \<lparr>db = recording (stub \<lparr>stream = [], rows_err = None\<rparr>)\<rparr> ''git*'' [] ((), []) =
     ((None, Some ErrNoLabelsProvided), ((), []))"
  using precondition_short_circuit
    [of "\<lparr>db = recording (stub \<lparr>stream = [], rows_err = None\<rparr>)\<rparr>" "((), [])" "''git*''"
        "stub \<lparr>stream = [], rows_err = None\<rparr>" "()" "[]"]
  by blast

text \<open>
  Claim C4. \<open>reduce\<close> maps each id to the record whose name is the name of the first row
  with that id and whose labels are the labels of all rows with that id, in arrival order
  and with repetitions kept; an id that no row carries is absent, and the empty row
  sequence gives the empty mapping.
\<close>

theorem reduce_first_name_all_labels:
  "reduce [] = Map.empty \<and>
   reduce rows i =
     (case filter (\<lambda>r. row_id r = i) rows of
        [] \<Rightarrow> None
      | r # rs \<Rightarrow> Some \<lparr>Name = row_name r, Labels = map row_label (r # rs)\<rparr>)"
  by (simp add: reduce_lookup) (simp add: reduce_def)

theorem reduce_first_name_all_labels_witness:
  "reduce [\<lparr>row_id = 1, row_name = ''a'', row_label = ''L1''\<rparr>,
           \<lparr>row_id = 2, row_name = ''b'', row_label = ''L1''\<rparr>,
           \<lparr>row_id = 1, row_name = ''z'', row_label = ''L2''\<rparr>,
           \<lparr>row_id = 1, row_name = ''a'', row_label = ''L1''\<rparr>] 1 =
     Some \<lparr>Name = ''a'', Labels = [''L1'', ''L2'', ''L1'']\<rparr>"
  using reduce_first_name_all_labels [of
      "[\<lparr>row_id = 1, row_name = ''a'', row_label = ''L1''\<rparr>,
        \<lparr>row_id = 2, row_name = ''b'', row_label = ''L1''\<rparr>,
        \<lparr>row_id = 1, row_name = ''z'', row_label = ''L2''\<rparr>,
        \<lparr>row_id = 1, row_name = ''a'', row_label = ''L1''\<rparr>]" 1]
  by simp

text \<open>
  Claim C9. \<open>reduce\<close> conserves rows: the lengths of the label lists of the mapping add up
  to the number of input rows, no label list of the mapping is empty, and the ids of the
  mapping are the ids that some input row carries.
\<close>

theorem reduce_conserves_rows:
  "(\<Sum>i \<in> dom (reduce rows). length (Labels (the (reduce rows i)))) = length rows \<and>
   (\<forall>i \<in> dom (reduce rows). Labels (the (reduce rows i)) \<noteq> []) \<and>
   dom (reduce rows) = row_id ` set rows"
proof (intro conjI ballI)
  have "(\<Sum>i \<in> dom (reduce rows). length (Labels (the (reduce rows i)))) =
        (\<Sum>i \<in> row_id ` set rows. length (filter (\<lambda>r. row_id r = i) rows))"
    by (rule sum.cong) (simp_all add: dom_reduce Labels_reduce)
  also have "\<dots> = length rows"
    by (rule sum_length_filter) simp_all
  finally show "(\<Sum>i \<in> dom (reduce rows). length (Labels (the (reduce rows i)))) = length rows" .
next
  fix i assume i: "i \<in> dom (reduce rows)"
  then have "filter (\<lambda>r. row_id r = i) rows \<noteq> []"
    by (auto simp: dom_reduce filter_empty_conv)
  then show "Labels (the (reduce rows i)) \<noteq> []"
    using i by (simp add: Labels_reduce)
next
  show "dom (reduce rows) = row_id ` set rows"
    by (rule dom_reduce)
qed

theorem reduce_conserves_rows_witness:
  "2 \<in> dom (reduce [\<lparr>row_id = 1, row_name = ''a'', row_label = ''L1''\<rparr>,
                   \<lparr>row_id = 2, row_name = ''b'', row_label = ''L1''\<rparr>,
                   \<lparr>row_id = 1, row_name = ''a'', row_label = ''L2''\<rparr>]) \<and>
   Labels (the (reduce [\<lparr>row_id = 1, row_name = ''a'', row_label = ''L1''\<rparr>,
                   \<lparr>row_id = 2, row_name = ''b'', row_label = ''L1''\<rparr>,
                   \<lparr>row_id = 1, row_name = ''a'', row_label = ''L2''\<rparr>] 2)) \<noteq> [] \<and>
   (\<Sum>i \<in> dom (reduce [\<lparr>row_id = 1, row_name = ''a'', row_label = ''L1''\<rparr>,
                   \<lparr>row_id = 2, row_name = ''b'', row_label = ''L1''\<rparr>,
                   \<lparr>row_id = 1, row_name = ''a'', row_label = ''L2''\<rparr>]).
      length (Labels (the (reduce [\<lparr>row_id = 1, row_name = ''a'', row_label = ''L1''\<rparr>,
                   \<lparr>row_id = 2, row_name = ''b'', row_label = ''L1''\<rparr>,
                   \<lparr>row_id = 1, row_name = ''a'', row_label = ''L2''\<rparr>] i)))) = 3"
proof -
  let ?rows = "[\<lparr>row_id = 1, row_name = ''a'', row_label = ''L1''\<rparr>,
                \<lparr>row_id = 2, row_name = ''b'', row_label = ''L1''\<rparr>,
                \<lparr>row_id = 1, row_name = ''a'', row_label = ''L2''\<rparr>]"
  note t = reduce_conserves_rows [of ?rows]
  from t have "dom (reduce ?rows) = row_id ` set ?rows" by blast
  then have d: "2 \<in> dom (reduce ?rows)" by simp
  from t have "\<forall>i \<in> dom (reduce ?rows). Labels (the (reduce ?rows i)) \<noteq> []" by blast
  with d have l: "Labels (the (reduce ?rows 2)) \<noteq> []" by blast
  from t have "(\<Sum>i \<in> dom (reduce ?rows). length (Labels (the (reduce ?rows i)))) = length ?rows"
    by blast
  then have n: "(\<Sum>i \<in> dom (reduce ?rows). length (Labels (the (reduce ?rows i)))) = 3"
    by simp
  from d l n show ?thesis by blast
qed

text \<open>
  Claim C5. For a non-empty pattern list \<open>whereGlobOrClause c ps\<close> is the text
  \<open>WHERE c GLOB ?\<close> followed by one \<open> OR c GLOB ?\<close> for each further pattern, so that a
  column name without a question mark gives exactly one \<open>?\<close> for each pattern; for the
  empty list it is the empty text. \<open>SecretsByColumn\<close> sends the clause with the patterns as
  parameters, in their order, and \<open>SecretsByLabelsAndName\<close> with the label patterns in
  their order and the name pattern after them.
\<close>

theorem whereGlobOrClause_placeholders:
  "whereGlobOrClause c [] = [] \<and>
   (ps \<noteq> [] \<longrightarrow>
      whereGlobOrClause c ps =
        ''WHERE '' @ c @ '' GLOB ?'' @
        concat (replicate (length ps - 1) ('' OR '' @ c @ '' GLOB ?''))) \<and>
   (CHR ''?'' \<notin> set c \<longrightarrow> count_list (whereGlobOrClause c ps) (CHR ''?'') = length ps) \<and>
   snd (snd (SecretsByColumn \<lparr>db = recording d\<rparr> c ps (st, []))) =
     [Query (selectJoin @ whereGlobOrClause c ps) (map AnyString ps)] \<and>
   (ps \<noteq> [] \<longrightarrow>
      snd (snd (SecretsByLabelsAndName \<lparr>db = recording d\<rparr> name ps (st, []))) =
        [Query (selectJoin @ whereGlobOrClause ''label'' ps @ ''AND secret_name GLOB ?'')
           (map AnyString ps @ [AnyString name])])"
proof (intro conjI impI)
  show "whereGlobOrClause c [] = []"
    by (simp add: whereGlobOrClause_def)
  show "whereGlobOrClause c ps =
        ''WHERE '' @ c @ '' GLOB ?'' @
        concat (replicate (length ps - 1) ('' OR '' @ c @ '' GLOB ?''))" if "ps \<noteq> []"
    using that by (rule whereGlobOrClause_text)
  show "count_list (whereGlobOrClause c ps) (CHR ''?'') = length ps" if "CHR ''?'' \<notin> set c"
    using that by (rule count_clause)
  show "snd (snd (SecretsByColumn \<lparr>db = recording d\<rparr> c ps (st, []))) =
     [Query (selectJoin @ whereGlobOrClause c ps) (map AnyString ps)]"
    by (simp add: SecretsByColumn_recording SecretsByColumn_query_def)
  show "snd (snd (SecretsByLabelsAndName \<lparr>db = recording d\<rparr> name ps (st, []))) =
        [Query (selectJoin @ whereGlobOrClause ''label'' ps @ ''AND secret_name GLOB ?'')
           (map AnyString ps @ [AnyString name])]" if "ps \<noteq> []"
    using that by (simp add: SecretsByLabelsAndName_recording SecretsByLabelsAndName_query_def)
qed

theorem whereGlobOrClause_placeholders_witness:
  "[''work'', ''personal'', ''h*''] \<noteq> [] \<and> CHR ''?'' \<notin> set ''label'' \<and>
   whereGlobOrClause ''label'' [''work'', ''personal'', ''h*''] =
     ''WHERE label GLOB ? OR label GLOB ? OR label GLOB ?'' \<and>
   count_list (whereGlobOrClause ''label'' [''work'', ''personal'', ''h*'']) (CHR ''?'') = 3 \<and>
   snd (snd (SecretsByLabelsAndName \<lparr>db = recording (stub \<lparr>stream = [], rows_err = None\<rparr>)\<rparr>
      ''git*'' [''work'', ''personal'', ''h*''] ((), []))) =
     [Query (selectJoin @ ''WHERE label GLOB ? OR label GLOB ? OR label GLOB ?AND secret_name GLOB ?'')
        [AnyString ''work'', AnyString ''personal'', AnyString ''h*'', AnyString ''git*'']]"
proof -
  note t = whereGlobOrClause_placeholders
    [of "''label''" "[''work'', ''personal'', ''h*'']" "stub \<lparr>stream = [], rows_err = None\<rparr>" "()" "''git*''"]
  have ne: "[''work'', ''personal'', ''h*''] \<noteq> []" by simp
  have q: "CHR ''?'' \<notin> set ''label''" by simp
  from t ne have clause: "whereGlobOrClause ''label'' [''work'', ''personal'', ''h*''] =
     ''WHERE label GLOB ? OR label GLOB ? OR label GLOB ?''"
    by (simp add: numeral_3_eq_3)
  from t q have cnt: "count_list (whereGlobOrClause ''label'' [''work'', ''personal'', ''h*'']) (CHR ''?'') = 3"
    by simp
  from t ne have "snd (snd (SecretsByLabelsAndName \<lparr>db = recording (stub \<lparr>stream = [], rows_err = None\<rparr>)\<rparr>
      ''git*'' [''work'', ''personal'', ''h*''] ((), []))) =
        [Query (selectJoin @ whereGlobOrClause ''label'' [''work'', ''personal'', ''h*''] @ ''AND secret_name GLOB ?'')
           (map AnyString [''work'', ''personal'', ''h*''] @ [AnyString ''git*''])]"
    by blast
  then have rec: "snd (snd (SecretsByLabelsAndName \<lparr>db = recording (stub \<lparr>stream = [], rows_err = None\<rparr>)\<rparr>
      ''git*'' [''work'', ''personal'', ''h*''] ((), []))) =
     [Query (selectJoin @ ''WHERE label GLOB ? OR label GLOB ? OR label GLOB ?AND secret_name GLOB ?'')
        [AnyString ''work'', AnyString ''personal'', AnyString ''h*'', AnyString ''git*'']]"
    unfolding clause by simp
  from ne q clause cnt rec show ?thesis by blast
qed

text \<open>
  Claim C7. When the result stream that the handle hands to a search operation has a row
  whose Scan fails, or ends with an iteration error, each of \<open>SecretsByColumn\<close>,
  \<open>SecretsByIDs\<close> and \<open>SecretsByLabelsAndName\<close> returns the nil mapping with an error:
  nothing aggregated from the rows decoded before the failure is returned.
\<close>

theorem search_fails_whole:
  "fails rows \<longrightarrow>
     (QueryContext (db s) (SecretsByColumn_query col ps) (ToAnySlice_string ps) st = (Inr rows, st')
        \<longrightarrow> (\<exists>err. fst (SecretsByColumn s col ps st) = (None, Some err))) \<and>
     (QueryContext (db s) (SecretsByIDs_query ids) (ToAnySlice_int ids) st = (Inr rows, st')
        \<longrightarrow> (\<exists>err. fst (SecretsByIDs s ids st) = (None, Some err))) \<and>
     (QueryContext (db s) (SecretsByLabelsAndName_query ls)
          (ToAnySlice_string ls @ [AnyString name]) st = (Inr rows, st')
        \<longrightarrow> (\<exists>err. fst (SecretsByLabelsAndName s name ls st) = (None, Some err)))"
proof (intro impI conjI)
  assume f: "fails rows"
  show "\<exists>err. fst (SecretsByColumn s col ps st) = (None, Some err)"
    if "QueryContext (db s) (SecretsByColumn_query col ps) (ToAnySlice_string ps) st = (Inr rows, st')"
    unfolding SecretsByColumn_def using that f by (rule secretsJoinLabels_fails)
  show "\<exists>err. fst (SecretsByIDs s ids st) = (None, Some err)"
    if q: "QueryContext (db s) (SecretsByIDs_query ids) (ToAnySlice_int ids) st = (Inr rows, st')"
  proof (cases "ids = []")
    case True
    then show ?thesis by (simp add: SecretsByIDs_def)
  next
    case False
    then show ?thesis
      using secretsJoinLabels_fails [OF q f] by (simp add: SecretsByIDs_def)
  qed
  show "\<exists>err. fst (SecretsByLabelsAndName s name ls st) = (None, Some err)"
    if q: "QueryContext (db s) (SecretsByLabelsAndName_query ls)
          (ToAnySlice_string ls @ [AnyString name]) st = (Inr rows, st')"
  proof (cases "ls = []")
    case True
    then show ?thesis by (simp add: SecretsByLabelsAndName_def)
  next
    case False
    then show ?thesis
      using secretsJoinLabels_fails [OF q f] by (simp add: SecretsByLabelsAndName_def)
  qed
qed

theorem search_fails_whole_witness:
  "fails \<lparr>stream = [Inr \<lparr>row_id = 1, row_name = ''a'', row_label = ''L1''\<rparr>, Inl (StorageError ''scan'')],
          rows_err = None\<rparr> \<and>
   fails \<lparr>stream = [Inr \<lparr>row_id = 1, row_name = ''a'', row_label = ''L1''\<rparr>],
          rows_err = Some (StorageError ''interrupted'')\<rparr> \<and>
   (\<exists>err. fst (SecretsByColumn
      \<lparr>db = stub \<lparr>stream = [Inr \<lparr>row_id = 1, row_name = ''a'', row_label = ''L1''\<rparr>, Inl (StorageError ''scan'')],
                   rows_err = None\<rparr>\<rparr> ''label'' [''L*''] ()) = (None, Some err)) \<and>
   (\<exists>err. fst (SecretsByIDs
      \<lparr>db = stub \<lparr>stream = [Inr \<lparr>row_id = 1, row_name = ''a'', row_label = ''L1''\<rparr>],
                   rows_err = Some (StorageError ''interrupted'')\<rparr>\<rparr> [1] ()) = (None, Some err)) \<and>
   (\<exists>err. fst (SecretsByLabelsAndName
      \<lparr>db = stub \<lparr>stream = [Inr \<lparr>row_id = 1, row_name = ''a'', row_label = ''L1''\<rparr>, Inl (StorageError ''scan'')],
                   rows_err = None\<rparr>\<rparr> ''a*'' [''L*''] ()) = (None, Some err))"
proof -
  let ?r1 = "\<lparr>stream = [Inr \<lparr>row_id = 1, row_name = ''a'', row_label = ''L1''\<rparr>, Inl (StorageError ''scan'')],
          rows_err = None\<rparr>"
  let ?r2 = "\<lparr>stream = [Inr \<lparr>row_id = 1, row_name = ''a'', row_label = ''L1''\<rparr>],
          rows_err = Some (StorageError ''interrupted'')\<rparr>"
  have f1: "fails ?r1" by (simp add: fails_def)
  have f2: "fails ?r2" by (simp add: fails_def)
  have q1: "QueryContext (db \<lparr>db = stub ?r1\<rparr>) q args () = (Inr ?r1, ())" for q args
    by (simp add: stub_def)
  have q2: "QueryContext (db \<lparr>db = stub ?r2\<rparr>) q args () = (Inr ?r2, ())" for q args
    by (simp add: stub_def)
  note t1 = search_fails_whole [of ?r1 "\<lparr>db = stub ?r1\<rparr>" "''label''" "[''L*'']" "()" "()" "[1]" "[''L*'']" "''a*''"]
  note t2 = search_fails_whole [of ?r2 "\<lparr>db = stub ?r2\<rparr>" "''label''" "[''L*'']" "()" "()" "[1]" "[''L*'']" "''a*''"]
  from t1 f1 q1 have a: "\<exists>err. fst (SecretsByColumn \<lparr>db = stub ?r1\<rparr> ''label'' [''L*''] ()) = (None, Some err)"
    by blast
  from t2 f2 q2 have b: "\<exists>err. fst (SecretsByIDs \<lparr>db = stub ?r2\<rparr> [1] ()) = (None, Some err)"
    by blast
  from t1 f1 q1 have c: "\<exists>err. fst (SecretsByLabelsAndName \<lparr>db = stub ?r1\<rparr> ''a*'' [''L*''] ()) = (None, Some err)"
    by blast
  from f1 f2 a b c show ?thesis by blast
qed

text \<open>
  Claim C8. The query text of a search does not depend on the values searched for: two
  pattern lists of one length (two id lists of one length) give the same query text, in the
  local variable \<open>query\<close> and in what a recording handle is sent; the patterns, the name
  and the ids are sent as the parameters of that one call.
\<close>

theorem query_text_independent:
  "(length ps = length ps' \<longrightarrow>
      SecretsByColumn_query col ps = SecretsByColumn_query col ps' \<and>
      map call_text (snd (snd (SecretsByColumn \<lparr>db = recording d\<rparr> col ps (st, [])))) =
      map call_text (snd (snd (SecretsByColumn \<lparr>db = recording d'\<rparr> col ps' (st', []))))) \<and>
   (length ids = length ids' \<longrightarrow>
      SecretsByIDs_query ids = SecretsByIDs_query ids' \<and>
      map call_text (snd (snd (SecretsByIDs \<lparr>db = recording d\<rparr> ids (st, [])))) =
      map call_text (snd (snd (SecretsByIDs \<lparr>db = recording d'\<rparr> ids' (st', []))))) \<and>
   (length ls = length ls' \<longrightarrow>
      SecretsByLabelsAndName_query ls = SecretsByLabelsAndName_query ls' \<and>
      map call_text (snd (snd (SecretsByLabelsAndName \<lparr>db = recording d\<rparr> name ls (st, [])))) =
      map call_text (snd (snd (SecretsByLabelsAndName \<lparr>db = recording d'\<rparr> name' ls' (st', []))))) \<and>
   snd (snd (SecretsByColumn \<lparr>db = recording d\<rparr> col ps (st, []))) =
     [Query (SecretsByColumn_query col ps) (map AnyString ps)] \<and>
   (ids \<noteq> [] \<longrightarrow> snd (snd (SecretsByIDs \<lparr>db = recording d\<rparr> ids (st, []))) =
     [Query (SecretsByIDs_query ids) (map AnyInt ids)]) \<and>
   (ls \<noteq> [] \<longrightarrow> snd (snd (SecretsByLabelsAndName \<lparr>db = recording d\<rparr> name ls (st, []))) =
     [Query (SecretsByLabelsAndName_query ls) (map AnyString ls @ [AnyString name])])"
proof (intro conjI impI)
  show c: "SecretsByColumn_query col ps = SecretsByColumn_query col ps'" if "length ps = length ps'"
    using that by (simp add: SecretsByColumn_query_def whereGlobOrClause_def)
  show "map call_text (snd (snd (SecretsByColumn \<lparr>db = recording d\<rparr> col ps (st, [])))) =
      map call_text (snd (snd (SecretsByColumn \<lparr>db = recording d'\<rparr> col ps' (st', []))))"
    if "length ps = length ps'"
    using c [OF that] by (simp add: SecretsByColumn_recording)
  show i: "SecretsByIDs_query ids = SecretsByIDs_query ids'" if "length ids = length ids'"
    using that by (simp add: SecretsByIDs_query_def)
  show "map call_text (snd (snd (SecretsByIDs \<lparr>db = recording d\<rparr> ids (st, [])))) =
      map call_text (snd (snd (SecretsByIDs \<lparr>db = recording d'\<rparr> ids' (st', []))))"
    if l: "length ids = length ids'"
  proof (cases "ids = []")
    case True
    with l have "ids' = []" by simp
    with True show ?thesis by (simp add: SecretsByIDs_def)
  next
    case False
    with l have "ids' \<noteq> []" by auto
    with False show ?thesis using i [OF l] by (simp add: SecretsByIDs_recording)
  qed
  show n: "SecretsByLabelsAndName_query ls = SecretsByLabelsAndName_query ls'" if "length ls = length ls'"
    using that by (simp add: SecretsByLabelsAndName_query_def whereGlobOrClause_def)
  show "map call_text (snd (snd (SecretsByLabelsAndName \<lparr>db = recording d\<rparr> name ls (st, [])))) =
      map call_text (snd (snd (SecretsByLabelsAndName \<lparr>db = recording d'\<rparr> name' ls' (st', []))))"
    if l: "length ls = length ls'"
  proof (cases "ls = []")
    case True
    with l have "ls' = []" by simp
    with True show ?thesis by (simp add: SecretsByLabelsAndName_def)
  next
    case False
    with l have "ls' \<noteq> []" by auto
    with False show ?thesis using n [OF l] by (simp add: SecretsByLabelsAndName_recording)
  qed
  show "snd (snd (SecretsByColumn \<lparr>db = recording d\<rparr> col ps (st, []))) =
     [Query (SecretsByColumn_query col ps) (map AnyString ps)]"
    by (simp add: SecretsByColumn_recording)
  show "snd (snd (SecretsByIDs \<lparr>db = recording d\<rparr> ids (st, []))) =
     [Query (SecretsByIDs_query ids) (map AnyInt ids)]" if "ids \<noteq> []"
    using that by (simp add: SecretsByIDs_recording)
  show "snd (snd (SecretsByLabelsAndName \<lparr>db = recording d\<rparr> name ls (st, []))) =
     [Query (SecretsByLabelsAndName_query ls) (map AnyString ls @ [AnyString name])]" if "ls \<noteq> []"
    using that by (simp add: SecretsByLabelsAndName_recording)
qed

theorem query_text_independent_witness:
  "length [''work'', ''home''] = length [''x'', ''$(rm)''] \<and>
   SecretsByColumn_query ''label'' [''work'', ''home''] = SecretsByColumn_query ''label'' [''x'', ''$(rm)''] \<and>
   length [1, 2 :: int] = length [7, 9 :: int] \<and>
   SecretsByIDs_query [1, 2] = SecretsByIDs_query [7, 9] \<and>
   SecretsByLabelsAndName_query [''work'', ''home''] = SecretsByLabelsAndName_query [''x'', ''$(rm)''] \<and>
   snd (snd (SecretsByIDs \<lparr>db = recording (stub \<lparr>stream = [], rows_err = None\<rparr>)\<rparr> [1, 2] ((), []))) =
     [Query (SecretsByIDs_query [1, 2]) [AnyInt 1, AnyInt 2]]"
proof -
  note t = query_text_independent
    [of "[''work'', ''home'']" "[''x'', ''$(rm)'']" "''label''" "stub \<lparr>stream = [], rows_err = None\<rparr>" "()"
        "stub \<lparr>stream = [], rows_err = None\<rparr>" "()" "[1, 2]" "[7, 9]"
        "[''work'', ''home'']" "[''x'', ''$(rm)'']" "''git*''" "''git*''"]
  have l1: "length [''work'', ''home''] = length [''x'', ''$(rm)'']" by simp
  have l2: "length [1, 2 :: int] = length [7, 9 :: int]" by simp
  have ne: "[1, 2 :: int] \<noteq> []" by simp
  from t l1 have a: "SecretsByColumn_query ''label'' [''work'', ''home''] =
      SecretsByColumn_query ''label'' [''x'', ''$(rm)'']" by blast
  from t l2 have b: "SecretsByIDs_query [1, 2] = SecretsByIDs_query [7, 9]" by blast
  from t l1 have c: "SecretsByLabelsAndName_query [''work'', ''home''] =
      SecretsByLabelsAndName_query [''x'', ''$(rm)'']" by blast
  from t ne have "snd (snd (SecretsByIDs \<lparr>db = recording (stub \<lparr>stream = [], rows_err = None\<rparr>)\<rparr> [1, 2] ((), []))) =
     [Query (SecretsByIDs_query [1, 2]) (map AnyInt [1, 2])]" by blast
  then have d: "snd (snd (SecretsByIDs \<lparr>db = recording (stub \<lparr>stream = [], rows_err = None\<rparr>)\<rparr> [1, 2] ((), []))) =
     [Query (SecretsByIDs_query [1, 2]) [AnyInt 1, AnyInt 2]]" by simp
  from l1 l2 a b c d show ?thesis by blast
qed

text \<open>
  Claim C10. \<open>WithTx\<close> allocates a new Store whose handle is the transaction and changes
  no Store that was there: the receiver keeps its handle, so its operations run as before,
  and the operations of the returned Store are those of a Store on the transaction.
\<close>

theorem WithTx_fresh_store:
  "s < length h \<longrightarrow>
     (case WithTx h s tx of
        (r, h') \<Rightarrow>
          r \<noteq> s \<and> length h \<le> r \<and> r < length h' \<and>
          h' ! r = \<lparr>db = tx\<rparr> \<and>
          h' ! s = h ! s \<and> db (h' ! s) = db (h ! s) \<and>
          (\<forall>a < length h. h' ! a = h ! a) \<and>
          SecretsByColumn (h' ! s) col ps st = SecretsByColumn (h ! s) col ps st \<and>
          secretsJoinLabels (h' ! r) q args st = secretsJoinLabels \<lparr>db = tx\<rparr> q args st)"
  by (simp add: WithTx_def nth_append)

theorem WithTx_fresh_store_witness:
  "(0::nat) < length [\<lparr>db = stub \<lparr>stream = [], rows_err = None\<rparr>\<rparr>] \<and>
   fst (WithTx [\<lparr>db = stub \<lparr>stream = [], rows_err = None\<rparr>\<rparr>] 0
          (stub \<lparr>stream = [], rows_err = Some ErrNoRows\<rparr>)) = 1 \<and>
   snd (WithTx [\<lparr>db = stub \<lparr>stream = [], rows_err = None\<rparr>\<rparr>] 0
          (stub \<lparr>stream = [], rows_err = Some ErrNoRows\<rparr>)) ! 0 =
     \<lparr>db = stub \<lparr>stream = [], rows_err = None\<rparr>\<rparr> \<and>
   snd (WithTx [\<lparr>db = stub \<lparr>stream = [], rows_err = None\<rparr>\<rparr>] 0
          (stub \<lparr>stream = [], rows_err = Some ErrNoRows\<rparr>)) ! 1 =
     \<lparr>db = stub \<lparr>stream = [], rows_err = Some ErrNoRows\<rparr>\<rparr>"
  using WithTx_fresh_store [of 0 "[\<lparr>db = stub \<lparr>stream = [], rows_err = None\<rparr>\<rparr>]"
      "stub \<lparr>stream = [], rows_err = Some ErrNoRows\<rparr>"]
  by (simp add: WithTx_def)




text \<open>
  Claim C1. \<open>SecretsByLabelsAndName\<close> is claimed to return a secret only when its name
  matches the name pattern. The code at the name pattern \<open>git*\<close> and the label patterns
  \<open>work\<close>, \<open>home\<close>: the secret named \<open>aws\<close> with the label \<open>work\<close> is returned, though
  \<open>aws\<close> does not match \<open>git*\<close>.
\<close>

theorem SecretsByLabelsAndName_label_alone:
  "SecretsByLabelsAndName \<lparr>db = engine wildcard\<rparr> ''git*'' [''work'', ''home'']
     \<lparr>master_key = [], secrets = [(1, ''aws'', ''pw1''), (2, ''github'', ''pw2'')],
      labels = [(1, ''work'', 1), (2, ''home'', 2)]\<rparr> =
     ((Some [1 \<mapsto> \<lparr>Name = ''aws'', Labels = [''work'']\<rparr>,
             2 \<mapsto> \<lparr>Name = ''github'', Labels = [''home'']\<rparr>], None),
      \<lparr>master_key = [], secrets = [(1, ''aws'', ''pw1''), (2, ''github'', ''pw2'')],
      labels = [(1, ''work'', 1), (2, ''home'', 2)]\<rparr>) \<and>
   \<not> wildcard ''git*'' ''aws''"
  by (simp add: SecretsByLabelsAndName_two join_rows_def reduce_def reduce_step_def)

text \<open>
  Claim C2. \<open>SecretsByColumn\<close> with no pattern is claimed to return every secret of the
  secrets table. The code on a store with the secrets 1 (labels \<open>work\<close>, \<open>home\<close>) and 2
  (no label): secret 1 is returned with both labels, secret 2 is not returned.
\<close>

theorem SecretsByColumn_drops_unlabelled:
  "SecretsByColumn \<lparr>db = engine wildcard\<rparr> ''label'' []
     \<lparr>master_key = [], secrets = [(1, ''github'', ''pw1''), (2, ''aws'', ''pw2'')],
      labels = [(1, ''work'', 1), (2, ''home'', 1)]\<rparr> =
     ((Some [1 \<mapsto> \<lparr>Name = ''github'', Labels = [''work'', ''home'']\<rparr>], None),
      \<lparr>master_key = [], secrets = [(1, ''github'', ''pw1''), (2, ''aws'', ''pw2'')],
      labels = [(1, ''work'', 1), (2, ''home'', 1)]\<rparr>) \<and>
   found (SecretsByColumn \<lparr>db = engine wildcard\<rparr> ''label'' []
     \<lparr>master_key = [], secrets = [(1, ''github'', ''pw1''), (2, ''aws'', ''pw2'')],
      labels = [(1, ''work'', 1), (2, ''home'', 1)]\<rparr>) 2 = None"
  by (simp add: SecretsByColumn_no_patterns join_rows_def reduce_def reduce_step_def found_def)

end
